theory Spec2Isabelle
  imports Complex_Main
begin

section \<open>Configuration and prompt script (bbot.py, lines 18--165)\<close>

definition AVAILABLE_MODELS :: "string list" where
  \<open>AVAILABLE_MODELS = [''gpt-4o'', ''gpt-4-turbo'', ''gpt-4'', ''gpt-3.5-turbo'']\<close>

definition INITIAL_PROMPT :: string where
  \<open>INITIAL_PROMPT =
     ''You are an expert in writing, copywriting, marketing, market research, offer creation, and behavioral psychology. Your job is to write a compelling document for my desired target audience.\<newline>'' @
     ''\<newline>'' @
     ''The ultimate goal is to profoundly understand my market and develop world-class messaging, which will give me the strategic positioning needed to dominate and scale this market.\<newline>'' @
     ''\<newline>'' @
     ''To do this, I will give you the following:\<newline>'' @
     ''\<newline>'' @
     ''1. My Target Niche\<newline>'' @
     ''2. My previous thoughts and understanding of that niche\<newline>'' @
     ''3. Context about my company and my offering to this niche\<newline>'' @
     ''4. Market study questions\<newline>'' @
     ''5. Competitive Analysis questions\<newline>'' @
     ''6. Offer Value questions for my product\<newline>'' @
     ''\<newline>'' @
     ''You write in a conversational, jargon-free tone that a 10-year-old would understand. Be conversational and plain.\<newline>'' @
     ''\<newline>'' @
     ''Sounds good?''\<close>

text \<open>
  The two interactive templates each have the single positional hole \<open>{0}\<close>; a template
  is modelled as the function that \<open>str.format\<close> computes from it, so
  \<open>INTERACTIVE_PROMPT_TEMPLATES[k].format(u)\<close> is \<open>(INTERACTIVE_PROMPT_TEMPLATES ! k) u\<close>.
\<close>

definition INTERACTIVE_PROMPT_TEMPLATES :: "(string \<Rightarrow> string) list" where
  \<open>INTERACTIVE_PROMPT_TEMPLATES = [
     (\<lambda>x.
       ''Great\<newline>'' @
       ''1. My target niche: This time, I'm aiming to reach out to **'' @ x @
       ''**\<newline>'' @
       ''2. My previous thoughts and understanding of this niche: **'' @ x @
       ''**\<newline>'' @
       ''I can provide you with the context about my company if this is clear. \<newline>'' @
       ''Sounds good?''),
     (\<lambda>x.
       ''Now, some context about my company and my offer to this niche, **'' @ x @
       ''**'')]\<close>

definition SCRIPTED_PROMPTS :: "string list" where
  \<open>SCRIPTED_PROMPTS = [
     ''**Market Study: Demographics**\<newline>'' @
     ''Please provide general demographics data about my target audience:\<newline>'' @
     ''* Gender\<newline>'' @
     ''* Age\<newline>'' @
     ''* Income\<newline>'' @
     ''* Geographic Location (Lifestyle)'',

     ''**Market Study: Pain Points**\<newline>'' @
     ''What are the demonetized pain points, desires, and objections?\<newline>'' @
     ''- What Do They See? \<newline>'' @
     ''- What do they hear?\<newline>'' @
     ''- What do they think & feel?\<newline>'' @
     ''- What do they see & do?\<newline>'' @
     ''- Pains, Frustrations, Fears, Problems\<newline>'' @
     ''- Dreams, Desires, Hopes, Wants, Needs \<newline>'' @
     ''- Objections'',

     ''**Market Study: Desires**\<newline>'' @
     ''- List the mass desires of this target market.\<newline>'' @
     ''- Select the broadest one with the most power.\<newline>'' @
     ''- List the product performance that satisfies that desire.\<newline>'' @
     ''- Pick the ONE product performance that is unique and powerfully fulfills the desire.'',

     ''**Market Sophistication & Awareness**\<newline>'' @
     ''Identify the level of market awareness for my offer:\<newline>'' @
     ''1. Most aware (know product name and price)\<newline>'' @
     ''2. Product Aware (know product but not price)\<newline>'' @
     ''3. Solution aware (know possible solution exists)\<newline>'' @
     ''4. Problem aware (may or may not know they have problem)\<newline>'' @
     ''5. Unaware (completely new market)'',

     ''**Competitor Analysis**\<newline>'' @
     ''Search for my top 3 competitors that have a similar offer to this niche:\<newline>'' @
     ''1. \<newline>'' @
     ''2.\<newline>'' @
     ''3,'',

     ''**Competitor Positioning**\<newline>'' @
     ''For each competitor:\<newline>'' @
     ''1. What is their product/service positioning?\<newline>'' @
     ''2. What are the deliverables? \<newline>'' @
     ''3. Price point? \<newline>'' @
     ''4. Payment terms? \<newline>'' @
     ''5. Bonuses? \<newline>'' @
     ''6. Guarantees/Risk Reversals?'',

     ''**Competitor Messaging**\<newline>'' @
     ''Common headlines competitors are using:\<newline>'' @
     ''1.\<newline>'' @
     ''2.\<newline>'' @
     ''3,\<newline>'' @
     ''How do competitors position themselves?\<newline>'' @
     ''1,\<newline>'' @
     ''2,\<newline>'' @
     ''3,\<newline>'' @
     ''What is their unique selling proposition?\<newline>'' @
     ''1,\<newline>'' @
     ''2,\<newline>'' @
     ''3,\<newline>'' @
     ''What promises and claims are they making?\<newline>'' @
     ''1,\<newline>'' @
     ''2,\<newline>'' @
     ''3,'',

     ''**Competitor Mechanisms**\<newline>'' @
     ''What unique mechanisms are competitors using?\<newline>'' @
     ''1,\<newline>'' @
     ''2,\<newline>'' @
     ''3,\<newline>'' @
     ''What are people saying in testimonials?\<newline>'' @
     ''1,\<newline>'' @
     ''2,\<newline>'' @
     ''3,\<newline>'' @
     ''Top sites competitors are advertising on:\<newline>'' @
     ''1,\<newline>'' @
     ''2,\<newline>'' @
     ''3,'',

     ''**Offer Appeal**\<newline>'' @
     ''Categorize my company's appeal:\<newline>'' @
     ''1. Sex appeal (relationships, social acceptance)\<newline>'' @
     ''2. Greed (things money can buy)\<newline>'' @
     ''3. Fear (of losing or not gaining)\<newline>'' @
     ''4. Duty/honor (what's best for people served)'',

     ''**Unique Selling Proposition**\<newline>'' @
     ''Establish my USP aligned with current offering:\<newline>'' @
     ''- Most powerful benefit with emotional pulling power\<newline>'' @
     ''- Current biggest growing trends in market\<newline>'' @
     ''- How to position as unique characteristic\<newline>'' @
     ''- How to communicate clearly and concisely\<newline>'' @
     ''- Can I create a "new category" or niche down?'',

     ''**Compiling Final Document**\<newline>'' @
     ''Compile all responses into a comprehensive marketing strategy document with:\<newline>'' @
     ''1. Target Niche Analysis\<newline>'' @
     ''2. Competitive Landscape\<newline>'' @
     ''3. Offer Positioning & Strategic Advantage\<newline>'' @
     ''Write in clear, plain, powerful language with bullet points where needed.'']\<close>

definition PROMPT_NAMES :: "string list" where
  \<open>PROMPT_NAMES = [
     ''Collecting Demographic Data'',
     ''Analyzing Pain Points'',
     ''Identifying Market Desires'',
     ''Assessing Market Awareness'',
     ''Finding Competitors'',
     ''Analyzing Competitor Positioning'',
     ''Studying Competitor Messaging'',
     ''Examining Competitor Mechanisms'',
     ''Defining Our Appeal'',
     ''Crafting Unique Selling Proposition'',
     ''Compiling Final Strategy Document'']\<close>

section \<open>Session state and replies\<close>

text \<open>
  A turn of the conversation is the dictionary \<open>{"role": ..., "content": ...}\<close>.
\<close>

record message =
  role :: string
  content :: string

abbreviation user_turn :: "string \<Rightarrow> message" where
  "user_turn c \<equiv> \<lparr>role = ''user'', content = c\<rparr>"

abbreviation assistant_turn :: "string \<Rightarrow> message" where
  "assistant_turn c \<equiv> \<lparr>role = ''assistant'', content = c\<rparr>"

text \<open>
  The global dictionary \<open>conversation_state\<close> (lines 171--180). The step is the integer
  the code stores: 0 start, 1 niche, 2 offer, 3 processing, 4 complete.
\<close>

record session =
  history :: "message list"
  step :: int
  model :: string
  final_response :: "string option"
  current_prompt :: nat
  progress :: int
  status :: string
  is_processing :: bool

definition initial_state :: session where
  "initial_state =
     \<lparr>history = [], step = 0, model = AVAILABLE_MODELS ! 0, final_response = None,
      current_prompt = 0, progress = 0, status = ''Ready to start'',
      is_processing = False\<rparr>"

text \<open>
  What a handler returns: the dictionary given to \<open>jsonify\<close> (keys in source order) with
  the status code of the response, or the file sent by \<open>send_from_directory\<close> (name and
  contents written).
\<close>

datatype json = JStr string | JInt int | JBool bool | JNull

datatype reply = Json "(string \<times> json) list" nat | Attachment string string

text \<open>\<open>request.form\<close>: the posted fields.\<close>

type_synonym form = "string \<rightharpoonup> string"

section \<open>The chat client and the world around the session\<close>

text \<open>
  The body of the \<open>try\<close> block of \<open>get_chatgpt_response\<close> (lines 191--197) posts the
  request, checks the status and reads \<open>choices[0].message.content\<close> of the answer. It is
  the external collaborator: its result is either the content of the answer, taken to be
  text, or an exception \<open>e\<close> raised by one of the three statements, of which the code uses
  \<open>str(e)\<close> only. The collaborator is a parameter of the model; it may answer differently
  at every request, so it also receives the number of requests made before.
\<close>

datatype outcome = Content string | Raised string

type_synonym api = "nat \<Rightarrow> string \<Rightarrow> message list \<Rightarrow> outcome"

text \<open>
  Every request made is logged with the model and the messages sent and with the session
  state at the time of the request: the state a concurrent \<open>/progress\<close> poll sees while
  the request is in flight.
\<close>

record call =
  call_model :: string
  call_messages :: "message list"
  call_state :: session

text \<open>
  The world: the session, the log of requests, and the number of batch threads that
  \<open>threading.Thread(target=process_all_scripted_prompts).start()\<close> has started and whose
  body has not run yet.
\<close>

record world =
  conversation_state :: session
  calls :: "call list"
  pending :: nat

definition initial_world :: world where
  "initial_world = \<lparr>conversation_state = initial_state, calls = [], pending = 0\<rparr>"

text \<open>
  \<open>get_chatgpt_response\<close> (lines 182--200). The history argument is optional and the
  messages are \<open>history + [turn] if history else [turn]\<close>. The \<open>except Exception\<close> clause
  turns an exception of the request into the text \<open>Error: str(e)\<close>, which is returned
  like an answer. (The diagnostic \<open>print\<close> is left out.)
\<close>

definition get_chatgpt_response ::
    "api \<Rightarrow> string \<Rightarrow> string \<Rightarrow> message list option \<Rightarrow> world \<Rightarrow> string \<times> world" where
  "get_chatgpt_response post prompt mdl hist w =
     (let messages =
            (case hist of
               None \<Rightarrow> [user_turn prompt]
             | Some h \<Rightarrow>
                 if h \<noteq> [] then h @ [user_turn prompt]
                 else [user_turn prompt]);
          result = post (length (calls w)) mdl messages;
          w' = w\<lparr>calls := calls w @
                 [\<lparr>call_model = mdl, call_messages = messages,
                   call_state = conversation_state w\<rparr>]\<rparr>
      in case result of
           Content text \<Rightarrow> (text, w')
         | Raised e \<Rightarrow> (''Error: '' @ e, w'))"

text \<open>
  The pair of turns every handler and the batch append with \<open>history.extend\<close>.
\<close>

definition extend_history :: "string \<Rightarrow> string \<Rightarrow> world \<Rightarrow> world" where
  "extend_history prompt response w =
     w\<lparr>conversation_state := (conversation_state w)
        \<lparr>history := history (conversation_state w) @
           [user_turn prompt,
            assistant_turn response]\<rparr>\<rparr>"

section \<open>The scripted batch (lines 202--233)\<close>

datatype error = IndexError

text \<open>
  One pass of the \<open>for\<close> loop, for the pair \<open>(i, prompt)\<close> of \<open>enumerate\<close>.
  \<open>PROMPT_NAMES[i]\<close> raises \<open>IndexError\<close> out of range, which would end the thread.
  \<open>i / len(SCRIPTED_PROMPTS)\<close> is the true quotient and \<open>int\<close> truncates it; the quotient
  is taken over the rationals (for the eleven indices the floating-point quotient lies in
  the same unit interval). The one-second \<open>time.sleep\<close> is left out.
\<close>

definition loop_body :: "api \<Rightarrow> nat \<Rightarrow> string \<Rightarrow> world \<Rightarrow> error + world" where
  "loop_body post i prompt w =
     (if i < length PROMPT_NAMES then
        let w1 = w\<lparr>conversation_state := (conversation_state w)
                   \<lparr>current_prompt := i,
                    status := PROMPT_NAMES ! i,
                    progress :=
                      \<lfloor>(of_nat i :: rat) / of_nat (length SCRIPTED_PROMPTS)\<rfloor> * 100\<rparr>\<rparr>;
            (response, w2) =
               get_chatgpt_response post prompt (model (conversation_state w1))
                 (Some (history (conversation_state w1))) w1
        in Inr (extend_history prompt response w2)
      else Inl IndexError)"

fun run_loop :: "api \<Rightarrow> (nat \<times> string) list \<Rightarrow> world \<Rightarrow> error + world" where
  "run_loop post [] w = Inr w"
| "run_loop post ((i, prompt) # rest) w =
     (case loop_body post i prompt w of
        Inl e \<Rightarrow> Inl e
      | Inr w' \<Rightarrow> run_loop post rest w')"

definition COMPILE_PROMPT :: string where
  "COMPILE_PROMPT =
     ''Compile all previous responses into a comprehensive marketing strategy document with clear sections.''"

definition process_all_scripted_prompts :: "api \<Rightarrow> world \<Rightarrow> error + world" where
  "process_all_scripted_prompts post w =
     (let w0 = w\<lparr>conversation_state := (conversation_state w)
                  \<lparr>is_processing := True, step := 3, progress := 0\<rparr>\<rparr>
      in case run_loop post (enumerate 0 SCRIPTED_PROMPTS) w0 of
           Inl e \<Rightarrow> Inl e
         | Inr w1 \<Rightarrow>
             let w2 = w1\<lparr>conversation_state := (conversation_state w1)
                         \<lparr>status := ''Finalizing document''\<rparr>\<rparr>;
                 (final, w3) =
                    get_chatgpt_response post COMPILE_PROMPT (model (conversation_state w2))
                      (Some (history (conversation_state w2))) w2
             in Inr (w3\<lparr>conversation_state := (conversation_state w3)
                         \<lparr>final_response := Some final,
                          step := 4,
                          progress := 100,
                          status := ''Complete'',
                          is_processing := False\<rparr>\<rparr>))"

section \<open>The request handlers (lines 424--522)\<close>

text \<open>
  \<open>str.strip()\<close> removes the whitespace characters at both ends; within the 8-bit
  characters these are the code points 9--13, 28--32, 133 and 160.
\<close>

definition isspace :: "char \<Rightarrow> bool" where
  "isspace c =
     (of_char c \<in> {9, 10, 11, 12, 13, 28, 29, 30, 31, 32, 133, 160 :: nat})"

definition strip :: "string \<Rightarrow> string" where
  "strip s = rev (dropWhile isspace (rev (dropWhile isspace s)))"

definition start_conversation :: "api \<Rightarrow> form \<Rightarrow> world \<Rightarrow> reply \<times> world" where
  "start_conversation post frm w =
     (let w0 = w\<lparr>conversation_state :=
                   \<lparr>history = [],
                    step = 0,
                    model = (case frm ''model'' of None \<Rightarrow> AVAILABLE_MODELS ! 0 | Some m \<Rightarrow> m),
                    final_response = None,
                    current_prompt = 0,
                    progress = 0,
                    status = ''Starting...'',
                    is_processing = False\<rparr>\<rparr>;
          (response, w1) =
             get_chatgpt_response post INITIAL_PROMPT (model (conversation_state w0)) None w0;
          w2 = extend_history INITIAL_PROMPT response w1;
          w3 = w2\<lparr>conversation_state := (conversation_state w2)\<lparr>step := 1\<rparr>\<rparr>
      in (Json [(''response'', JStr response),
                (''step'', JInt 1),
                (''user_prompt'', JStr ''Please enter your target niche information:''),
                (''status'', JStr (status (conversation_state w3)))] 200,
          w3))"

definition next_step :: "api \<Rightarrow> form \<Rightarrow> world \<Rightarrow> reply \<times> world" where
  \<open>next_step post frm w =
     (let user_input = strip (case frm ''input'' of None \<Rightarrow> '''' | Some v \<Rightarrow> v) in
      if step (conversation_state w) = 1 then
        let prompt = (INTERACTIVE_PROMPT_TEMPLATES ! 0) user_input;
            (response, w1) =
               get_chatgpt_response post prompt (model (conversation_state w))
                 (Some (history (conversation_state w))) w;
            w2 = extend_history prompt response w1;
            w3 = w2\<lparr>conversation_state := (conversation_state w2)\<lparr>step := 2\<rparr>\<rparr>
        in (Json [(''response'', JStr response),
                  (''step'', JInt 2),
                  (''user_prompt'',
                     JStr ''Now please provide context about your company and offer:''),
                  (''status'', JStr (status (conversation_state w3)))] 200,
            w3)
      else if step (conversation_state w) = 2 then
        let prompt = (INTERACTIVE_PROMPT_TEMPLATES ! 1) user_input;
            (response, w1) =
               get_chatgpt_response post prompt (model (conversation_state w))
                 (Some (history (conversation_state w))) w;
            w2 = extend_history prompt response w1;
            w3 = (if \<not> is_processing (conversation_state w2)
                  then w2\<lparr>pending := pending w2 + 1\<rparr>
                  else w2)
        in (Json [(''response'',
                     JStr (''Great! I'm now processing all the marketing research questions. '' @
                           ''This may take a few minutes...'')),
                  (''step'', JInt 3),
                  (''status'', JStr ''Starting analysis...''),
                  (''progress'', JInt 0),
                  (''auto_proceed'', JBool False)] 200,
            w3)
      else (Json [(''error'', JStr ''Invalid step'')] 200, w))\<close>

definition get_progress :: "world \<Rightarrow> reply" where
  "get_progress w =
     Json [(''step'', JInt (step (conversation_state w))),
           (''progress'', JInt (progress (conversation_state w))),
           (''status'', JStr (status (conversation_state w))),
           (''current_prompt'', JInt (int (current_prompt (conversation_state w)))),
           (''total_prompts'', JInt (int (length SCRIPTED_PROMPTS))),
           (''complete'', JBool (step (conversation_state w) = 4)),
           (''is_processing'', JBool (is_processing (conversation_state w)))] 200"

text \<open>
  \<open>not conversation_state['final_response']\<close> is true of \<open>None\<close> and of the empty
  string. Otherwise the document is written to \<open>marketing_strategy.txt\<close> and that file
  is sent (the working directory is taken to be the directory the file is served from).
\<close>

definition download :: "world \<Rightarrow> reply" where
  "download w =
     (case final_response (conversation_state w) of
        None \<Rightarrow> Json [(''error'', JStr ''Document not ready yet'')] 404
      | Some text \<Rightarrow>
          if text = [] then Json [(''error'', JStr ''Document not ready yet'')] 404
          else Attachment ''marketing_strategy.txt'' text)"

definition get_final_response :: "world \<Rightarrow> reply" where
  "get_final_response w =
     (if step (conversation_state w) \<noteq> 4
      then Json [(''error'', JStr ''Document not ready yet'')] 404
      else Json [(''response'',
                   (case final_response (conversation_state w) of
                      None \<Rightarrow> JNull | Some text \<Rightarrow> JStr text))] 200)"

section \<open>The operations of the running server\<close>

text \<open>
  One operation is one request served, or the body of a started batch thread run to its
  end. The read-only handlers leave the world as it is. A batch thread runs only if one
  has been started.
\<close>

datatype operation =
    StartSession form
  | SubmitStep form
  | RunBatch
  | GetProgress
  | GetFinalDocument
  | DownloadDocument

fun perform :: "api \<Rightarrow> operation \<Rightarrow> world \<Rightarrow> error + (reply option \<times> world)" where
  "perform post (StartSession frm) w =
     (case start_conversation post frm w of (r, w') \<Rightarrow> Inr (Some r, w'))"
| "perform post (SubmitStep frm) w =
     (case next_step post frm w of (r, w') \<Rightarrow> Inr (Some r, w'))"
| "perform post RunBatch w =
     (if pending w = 0 then Inr (None, w)
      else case process_all_scripted_prompts post (w\<lparr>pending := pending w - 1\<rparr>) of
             Inl e \<Rightarrow> Inl e
           | Inr w' \<Rightarrow> Inr (None, w'))"
| "perform post GetProgress w = Inr (Some (get_progress w), w)"
| "perform post GetFinalDocument w = Inr (Some (get_final_response w), w)"
| "perform post DownloadDocument w = Inr (Some (download w), w)"

fun run_all :: "api \<Rightarrow> operation list \<Rightarrow> world \<Rightarrow> error + world" where
  "run_all post [] w = Inr w"
| "run_all post (op # ops) w =
     (case perform post op w of
        Inl e \<Rightarrow> Inl e
      | Inr (r, w') \<Rightarrow> run_all post ops w')"

section \<open>Notions used in the statements\<close>

text \<open>The text that \<open>get_chatgpt_response\<close> returns for an outcome of the request.\<close>

definition reply_text :: "outcome \<Rightarrow> string" where
  "reply_text r = (case r of Content text \<Rightarrow> text | Raised e \<Rightarrow> ''Error: '' @ e)"

text \<open>
  What a run of the loop over the pairs \<open>ps\<close> does to a world: it adds one request and
  two turns per pair, in order, and leaves the rest of the session alone.
\<close>

definition loop_effect :: "api \<Rightarrow> (nat \<times> string) list \<Rightarrow> world \<Rightarrow> world \<Rightarrow> bool" where
  "loop_effect post ps w w' =
    (let s = conversation_state w; s' = conversation_state w';
         n = length (calls w); l = length (history s) in
     pending w' = pending w \<and>
     step s' = step s \<and> model s' = model s \<and> final_response s' = final_response s \<and>
     is_processing s' = is_processing s \<and>
     progress s' = (if ps = [] then progress s else 0) \<and>
     length (calls w') = n + length ps \<and>
     take n (calls w') = calls w \<and>
     length (history s') = l + 2 * length ps \<and>
     take l (history s') = history s \<and>
     (\<forall>j < length ps.
        call_model (calls w' ! (n + j)) = model s \<and>
        call_messages (calls w' ! (n + j)) =
          take (l + 2 * j) (history s') @ [user_turn (snd (ps ! j))] \<and>
        history (call_state (calls w' ! (n + j))) = take (l + 2 * j) (history s') \<and>
        current_prompt (call_state (calls w' ! (n + j))) = fst (ps ! j) \<and>
        status (call_state (calls w' ! (n + j))) = PROMPT_NAMES ! fst (ps ! j) \<and>
        progress (call_state (calls w' ! (n + j))) = 0 \<and>
        step (call_state (calls w' ! (n + j))) = step s \<and>
        model (call_state (calls w' ! (n + j))) = model s \<and>
        final_response (call_state (calls w' ! (n + j))) = final_response s \<and>
        is_processing (call_state (calls w' ! (n + j))) = is_processing s \<and>
        history s' ! (l + 2 * j) = user_turn (snd (ps ! j)) \<and>
        history s' ! (l + 2 * j + 1) =
          assistant_turn (reply_text (post (n + j) (model s)
             (take (l + 2 * j) (history s') @ [user_turn (snd (ps ! j))])))))"

text \<open>
  What the whole batch does to a world: eleven scripted requests and the compilation
  request, twenty-two turns, and the closing assignments.
\<close>

definition batch_effect :: "api \<Rightarrow> world \<Rightarrow> world \<Rightarrow> bool" where
  "batch_effect post w w' =
    (let s = conversation_state w; s' = conversation_state w';
         n = length (calls w); l = length (history s) in
     pending w' = pending w \<and> model s' = model s \<and>
     step s' = 4 \<and> progress s' = 100 \<and> status s' = ''Complete'' \<and>
     \<not> is_processing s' \<and>
     length (calls w') = n + 12 \<and>
     take n (calls w') = calls w \<and>
     length (history s') = l + 22 \<and>
     take l (history s') = history s \<and>
     final_response s' =
       Some (reply_text (post (n + 11) (model s) (history s' @ [user_turn COMPILE_PROMPT]))) \<and>
     call_model (calls w' ! (n + 11)) = model s \<and>
     call_messages (calls w' ! (n + 11)) = history s' @ [user_turn COMPILE_PROMPT] \<and>
     history (call_state (calls w' ! (n + 11))) = history s' \<and>
     status (call_state (calls w' ! (n + 11))) = ''Finalizing document'' \<and>
     progress (call_state (calls w' ! (n + 11))) = 0 \<and>
     step (call_state (calls w' ! (n + 11))) = 3 \<and>
     final_response (call_state (calls w' ! (n + 11))) = final_response s \<and>
     is_processing (call_state (calls w' ! (n + 11))) \<and>
     (\<forall>j < 11.
        call_model (calls w' ! (n + j)) = model s \<and>
        call_messages (calls w' ! (n + j)) =
          take (l + 2 * j) (history s') @ [user_turn (SCRIPTED_PROMPTS ! j)] \<and>
        history (call_state (calls w' ! (n + j))) = take (l + 2 * j) (history s') \<and>
        current_prompt (call_state (calls w' ! (n + j))) = j \<and>
        status (call_state (calls w' ! (n + j))) = PROMPT_NAMES ! j \<and>
        progress (call_state (calls w' ! (n + j))) = 0 \<and>
        step (call_state (calls w' ! (n + j))) = 3 \<and>
        final_response (call_state (calls w' ! (n + j))) = final_response s \<and>
        is_processing (call_state (calls w' ! (n + j))) \<and>
        history s' ! (l + 2 * j) = user_turn (SCRIPTED_PROMPTS ! j) \<and>
        history s' ! (l + 2 * j + 1) =
          assistant_turn (reply_text (post (n + j) (model s)
             (take (l + 2 * j) (history s') @ [user_turn (SCRIPTED_PROMPTS ! j)])))))"


text \<open>Collaborators and sessions used as concrete inputs.\<close>

definition steady_api :: api where
  "steady_api n mdl msgs = Content ''ok''"

definition flaky_api :: api where
  "flaky_api n mdl msgs = (if n = 2 then Raised ''503 Server Error'' else Content ''ok'')"

definition silent_api :: api where
  "silent_api n mdl msgs = Content ''''"

definition niche_form :: form where
  "niche_form = [''input'' \<mapsto> ''dog walkers'', ''step'' \<mapsto> ''1'']"

definition offer_form :: form where
  "offer_form = [''input'' \<mapsto> ''a booking app'', ''step'' \<mapsto> ''2'']"

text \<open>
  The world after \<open>/start\<close> with model \<open>gpt-4\<close> and the niche have been served by
  \<open>steady_api\<close>: the session waits for the offer.
\<close>

definition offer_world :: world where
  "offer_world =
     \<lparr>conversation_state =
        \<lparr>history =
           [user_turn INITIAL_PROMPT, assistant_turn ''ok'',
            user_turn ((INTERACTIVE_PROMPT_TEMPLATES ! 0) ''dog walkers''),
            assistant_turn ''ok''],
         step = 2, model = ''gpt-4'', final_response = None, current_prompt = 0,
         progress = 0, status = ''Starting...'', is_processing = False\<rparr>,
      calls =
        [\<lparr>call_model = ''gpt-4'', call_messages = [user_turn INITIAL_PROMPT],
          call_state =
            \<lparr>history = [], step = 0, model = ''gpt-4'', final_response = None,
             current_prompt = 0, progress = 0, status = ''Starting...'',
             is_processing = False\<rparr>\<rparr>,
         \<lparr>call_model = ''gpt-4'',
          call_messages =
            [user_turn INITIAL_PROMPT, assistant_turn ''ok'',
             user_turn ((INTERACTIVE_PROMPT_TEMPLATES ! 0) ''dog walkers'')],
          call_state =
            \<lparr>history = [user_turn INITIAL_PROMPT, assistant_turn ''ok''],
             step = 1, model = ''gpt-4'', final_response = None, current_prompt = 0,
             progress = 0, status = ''Starting...'', is_processing = False\<rparr>\<rparr>],
      pending = 0\<rparr>"

section \<open>Facts about the prompt script and the chat client\<close>

lemma length_SCRIPTED_PROMPTS: "length SCRIPTED_PROMPTS = 11"
  by (simp add: SCRIPTED_PROMPTS_def)

lemma length_PROMPT_NAMES: "length PROMPT_NAMES = 11"
  by (simp add: PROMPT_NAMES_def)

lemma script_nth:
  assumes "j < 11"
  shows "enumerate 0 SCRIPTED_PROMPTS ! j = (j, SCRIPTED_PROMPTS ! j)"
  using assms by (simp add: nth_enumerate_eq length_SCRIPTED_PROMPTS)

lemma script_indices: "\<forall>q \<in> set (enumerate 0 SCRIPTED_PROMPTS). fst q < 11"
  by (auto simp add: in_set_enumerate_eq length_SCRIPTED_PROMPTS)

lemma get_chatgpt_response_Some:
  "get_chatgpt_response post prompt mdl (Some h) w =
     (reply_text (post (length (calls w)) mdl (h @ [user_turn prompt])),
      w\<lparr>calls := calls w @
           [\<lparr>call_model = mdl, call_messages = h @ [user_turn prompt],
             call_state = conversation_state w\<rparr>]\<rparr>)"
  by (cases h)
    (simp_all add: get_chatgpt_response_def reply_text_def Let_def split: outcome.splits)

lemma get_chatgpt_response_None:
  "get_chatgpt_response post prompt mdl None w =
     (reply_text (post (length (calls w)) mdl [user_turn prompt]),
      w\<lparr>calls := calls w @
           [\<lparr>call_model = mdl, call_messages = [user_turn prompt],
             call_state = conversation_state w\<rparr>]\<rparr>)"
  by (simp add: get_chatgpt_response_def reply_text_def Let_def split: outcome.splits)

lemma progress_formula:
  assumes "i < 11"
  shows "\<lfloor>(of_nat i :: rat) / of_nat (length SCRIPTED_PROMPTS)\<rfloor> * 100 = 0"
  using assms
  by (simp add: length_SCRIPTED_PROMPTS floor_divide_of_nat_eq[of i 11, simplified])

section \<open>The loop of the batch\<close>

lemma loop_body_eq:
  assumes "i < 11"
  shows "loop_body post i prompt w =
     Inr (w\<lparr>conversation_state := (conversation_state w)
             \<lparr>current_prompt := i, status := PROMPT_NAMES ! i, progress := 0,
              history := history (conversation_state w) @
                [user_turn prompt,
                 assistant_turn (reply_text (post (length (calls w))
                    (model (conversation_state w))
                    (history (conversation_state w) @ [user_turn prompt])))]\<rparr>,
            calls := calls w @
              [\<lparr>call_model = model (conversation_state w),
                call_messages = history (conversation_state w) @ [user_turn prompt],
                call_state = (conversation_state w)
                  \<lparr>current_prompt := i, status := PROMPT_NAMES ! i, progress := 0\<rparr>\<rparr>]\<rparr>)"
  using assms
  by (simp add: loop_body_def length_PROMPT_NAMES progress_formula get_chatgpt_response_Some
      extend_history_def)

lemma run_loop_append:
  "run_loop post (ps @ qs) w =
     (case run_loop post ps w of Inl e \<Rightarrow> Inl e | Inr w' \<Rightarrow> run_loop post qs w')"
  by (induction ps arbitrary: w) (auto split: sum.splits)

lemma run_loop_effect:
  assumes "\<forall>q \<in> set ps. fst q < 11"
  shows "\<exists>w'. run_loop post ps w = Inr w' \<and> loop_effect post ps w w'"
  using assms
proof (induction ps rule: rev_induct)
  case Nil
  then show ?case by (simp add: loop_effect_def)
next
  case (snoc q ps)
  obtain i p where q: "q = (i, p)" by (cases q)
  from snoc.prems q have i: "i < 11" by simp
  from snoc obtain w1 where w1: "run_loop post ps w = Inr w1"
    and e1: "loop_effect post ps w w1"
    by auto
  obtain w' where w': "loop_body post i p w1 = Inr w'"
    using loop_body_eq[OF i] by blast
  have run: "run_loop post (ps @ [q]) w = Inr w'"
    by (simp add: run_loop_append w1 q w')
  have "loop_effect post (ps @ [q]) w w'"
    using e1 w'[unfolded loop_body_eq[OF i]] q
    by (clarsimp simp add: loop_effect_def Let_def nth_append less_Suc_eq)
  with run show ?case by blast
qed

text \<open>The batch, in terms of the world its loop ends in.\<close>

lemma process_all_eq:
  assumes "run_loop post (enumerate 0 SCRIPTED_PROMPTS)
             (w\<lparr>conversation_state := (conversation_state w)
                 \<lparr>is_processing := True, step := 3, progress := 0\<rparr>\<rparr>) = Inr w1"
  shows "process_all_scripted_prompts post w =
     Inr (w1\<lparr>conversation_state := (conversation_state w1)
              \<lparr>status := ''Complete'',
               final_response := Some (reply_text (post (length (calls w1))
                  (model (conversation_state w1))
                  (history (conversation_state w1) @ [user_turn COMPILE_PROMPT]))),
               step := 4, progress := 100, is_processing := False\<rparr>,
             calls := calls w1 @
               [\<lparr>call_model = model (conversation_state w1),
                 call_messages = history (conversation_state w1) @ [user_turn COMPILE_PROMPT],
                 call_state = (conversation_state w1)
                   \<lparr>status := ''Finalizing document''\<rparr>\<rparr>]\<rparr>)"
  using assms
  by (simp add: process_all_scripted_prompts_def get_chatgpt_response_Some)

lemma batch_loop:
  "\<exists>w1. run_loop post (enumerate 0 SCRIPTED_PROMPTS)
            (w\<lparr>conversation_state := (conversation_state w)
                \<lparr>is_processing := True, step := 3, progress := 0\<rparr>\<rparr>) = Inr w1 \<and>
         loop_effect post (enumerate 0 SCRIPTED_PROMPTS)
            (w\<lparr>conversation_state := (conversation_state w)
                \<lparr>is_processing := True, step := 3, progress := 0\<rparr>\<rparr>) w1"
  by (rule run_loop_effect[OF script_indices])


lemma batch_total:
  "\<exists>w'. process_all_scripted_prompts post w = Inr w' \<and> batch_effect post w w'"
proof -
  let ?w0 = "w\<lparr>conversation_state := (conversation_state w)
                 \<lparr>is_processing := True, step := 3, progress := 0\<rparr>\<rparr>"
  obtain w1 where run: "run_loop post (enumerate 0 SCRIPTED_PROMPTS) ?w0 = Inr w1"
    and eff: "loop_effect post (enumerate 0 SCRIPTED_PROMPTS) ?w0 w1"
    using batch_loop[of post w] by blast
  note fin = process_all_eq[OF run]
  have len: "length (enumerate 0 SCRIPTED_PROMPTS) = 11"
    by (simp add: length_SCRIPTED_PROMPTS)
  have ne: "enumerate 0 SCRIPTED_PROMPTS \<noteq> []"
  proof
    assume "enumerate 0 SCRIPTED_PROMPTS = []"
    then have "length (enumerate 0 SCRIPTED_PROMPTS) = 0" by simp
    with len show False by simp
  qed
  have "batch_effect post w
     (w1\<lparr>conversation_state := (conversation_state w1)
              \<lparr>status := ''Complete'',
               final_response := Some (reply_text (post (length (calls w1))
                  (model (conversation_state w1))
                  (history (conversation_state w1) @ [user_turn COMPILE_PROMPT]))),
               step := 4, progress := 100, is_processing := False\<rparr>,
             calls := calls w1 @
               [\<lparr>call_model = model (conversation_state w1),
                 call_messages = history (conversation_state w1) @ [user_turn COMPILE_PROMPT],
                 call_state = (conversation_state w1)
                   \<lparr>status := ''Finalizing document''\<rparr>\<rparr>]\<rparr>)"
    using eff
    by (clarsimp simp add: loop_effect_def batch_effect_def Let_def ne nth_append
        length_SCRIPTED_PROMPTS script_nth)
  with fin show ?thesis by blast
qed


lemma offer_world_sizes:
  "length (calls offer_world) = 2"
  "length (history (conversation_state offer_world)) = 4"
  by (simp_all add: offer_world_def)

section \<open>The handlers in closed form\<close>

lemma start_conversation_eq:
  "start_conversation post frm w =
     (Json [(''response'',
               JStr (reply_text (post (length (calls w))
                  (case frm ''model'' of None \<Rightarrow> AVAILABLE_MODELS ! 0 | Some m \<Rightarrow> m)
                  [user_turn INITIAL_PROMPT]))),
            (''step'', JInt 1),
            (''user_prompt'', JStr ''Please enter your target niche information:''),
            (''status'', JStr ''Starting...'')] 200,
      w\<lparr>conversation_state :=
           \<lparr>history =
              [user_turn INITIAL_PROMPT,
               assistant_turn (reply_text (post (length (calls w))
                  (case frm ''model'' of None \<Rightarrow> AVAILABLE_MODELS ! 0 | Some m \<Rightarrow> m)
                  [user_turn INITIAL_PROMPT]))],
            step = 1,
            model = (case frm ''model'' of None \<Rightarrow> AVAILABLE_MODELS ! 0 | Some m \<Rightarrow> m),
            final_response = None, current_prompt = 0, progress = 0,
            status = ''Starting...'', is_processing = False\<rparr>,
         calls := calls w @
           [\<lparr>call_model = (case frm ''model'' of None \<Rightarrow> AVAILABLE_MODELS ! 0 | Some m \<Rightarrow> m),
             call_messages = [user_turn INITIAL_PROMPT],
             call_state =
               \<lparr>history = [], step = 0,
                model = (case frm ''model'' of None \<Rightarrow> AVAILABLE_MODELS ! 0 | Some m \<Rightarrow> m),
                final_response = None, current_prompt = 0, progress = 0,
                status = ''Starting...'', is_processing = False\<rparr>\<rparr>]\<rparr>)"
  by (simp add: start_conversation_def get_chatgpt_response_None extend_history_def)

lemma next_step_niche:
  assumes "step (conversation_state w) = 1"
  shows "next_step post frm w =
     (Json [(''response'',
               JStr (reply_text (post (length (calls w)) (model (conversation_state w))
                  (history (conversation_state w) @
                   [user_turn ((INTERACTIVE_PROMPT_TEMPLATES ! 0)
                      (strip (case frm ''input'' of None \<Rightarrow> [] | Some v \<Rightarrow> v)))])))),
            (''step'', JInt 2),
            (''user_prompt'',
               JStr ''Now please provide context about your company and offer:''),
            (''status'', JStr (status (conversation_state w)))] 200,
      w\<lparr>conversation_state := (conversation_state w)
           \<lparr>history := history (conversation_state w) @
              [user_turn ((INTERACTIVE_PROMPT_TEMPLATES ! 0)
                 (strip (case frm ''input'' of None \<Rightarrow> [] | Some v \<Rightarrow> v))),
               assistant_turn (reply_text (post (length (calls w))
                  (model (conversation_state w))
                  (history (conversation_state w) @
                   [user_turn ((INTERACTIVE_PROMPT_TEMPLATES ! 0)
                      (strip (case frm ''input'' of None \<Rightarrow> [] | Some v \<Rightarrow> v)))])))],
            step := 2\<rparr>,
         calls := calls w @
           [\<lparr>call_model = model (conversation_state w),
             call_messages = history (conversation_state w) @
               [user_turn ((INTERACTIVE_PROMPT_TEMPLATES ! 0)
                  (strip (case frm ''input'' of None \<Rightarrow> [] | Some v \<Rightarrow> v)))],
             call_state = conversation_state w\<rparr>]\<rparr>)"
  using assms
  by (simp add: next_step_def get_chatgpt_response_Some extend_history_def Let_def)



section \<open>Properties of the scripted batch\<close>

text \<open>
  C1. During the scripted batch, for every entry index \<open>i < 11\<close> the progress value
  written before the chat request of entry \<open>i\<close> is \<open>floor(i / 11) * 100\<close>, which is 0;
  it is still 0 while the final compilation request is in flight, and becomes 100 only
  after that request has returned. The session state seen during the \<open>i\<close>-th request of
  the batch is the snapshot logged with it.
\<close>

theorem batch_progress_zero_until_complete:
  "\<exists>w'. process_all_scripted_prompts post w = Inr w' \<and>
        length (calls w') = length (calls w) + 12 \<and>
        (\<forall>i < 11.
           current_prompt (call_state (calls w' ! (length (calls w) + i))) = i \<and>
           last (call_messages (calls w' ! (length (calls w) + i))) =
             user_turn (SCRIPTED_PROMPTS ! i) \<and>
           progress (call_state (calls w' ! (length (calls w) + i))) =
             \<lfloor>(of_nat i :: rat) / 11\<rfloor> * 100 \<and>
           progress (call_state (calls w' ! (length (calls w) + i))) = 0) \<and>
        last (call_messages (calls w' ! (length (calls w) + 11))) =
          user_turn COMPILE_PROMPT \<and>
        progress (call_state (calls w' ! (length (calls w) + 11))) = 0 \<and>
        progress (conversation_state w') = 100"
proof -
  obtain w' where run: "process_all_scripted_prompts post w = Inr w'"
    and eff: "batch_effect post w w'"
    using batch_total[of post w] by blast
  have zero: "\<lfloor>(of_nat i :: rat) / 11\<rfloor> * 100 = 0" if "i < 11" for i :: nat
    using progress_formula[OF that] by (simp add: length_SCRIPTED_PROMPTS)
  from eff have "length (calls w') = length (calls w) + 12"
    and "last (call_messages (calls w' ! (length (calls w) + 11))) = user_turn COMPILE_PROMPT"
    and "progress (call_state (calls w' ! (length (calls w) + 11))) = 0"
    and "progress (conversation_state w') = 100"
    by (simp_all add: batch_effect_def Let_def)
  moreover from eff have "\<forall>i < 11.
           current_prompt (call_state (calls w' ! (length (calls w) + i))) = i \<and>
           last (call_messages (calls w' ! (length (calls w) + i))) =
             user_turn (SCRIPTED_PROMPTS ! i) \<and>
           progress (call_state (calls w' ! (length (calls w) + i))) =
             \<lfloor>(of_nat i :: rat) / 11\<rfloor> * 100 \<and>
           progress (call_state (calls w' ! (length (calls w) + i))) = 0"
    by (simp add: batch_effect_def Let_def zero)
  ultimately show ?thesis using run by blast
qed

theorem batch_progress_zero_until_complete_witness:
  "\<exists>w'. process_all_scripted_prompts steady_api initial_world = Inr w' \<and>
        length (calls w') = 12 \<and>
        current_prompt (call_state (calls w' ! 10)) = 10 \<and>
        progress (call_state (calls w' ! 10)) = 0 \<and>
        progress (call_state (calls w' ! 11)) = 0 \<and>
        progress (conversation_state w') = 100"
proof -
  obtain w' where run: "process_all_scripted_prompts steady_api initial_world = Inr w'"
    and len: "length (calls w') = length (calls initial_world) + 12"
    and each: "\<forall>i < 11.
           current_prompt (call_state (calls w' ! (length (calls initial_world) + i))) = i \<and>
           last (call_messages (calls w' ! (length (calls initial_world) + i))) =
             user_turn (SCRIPTED_PROMPTS ! i) \<and>
           progress (call_state (calls w' ! (length (calls initial_world) + i))) =
             \<lfloor>(of_nat i :: rat) / 11\<rfloor> * 100 \<and>
           progress (call_state (calls w' ! (length (calls initial_world) + i))) = 0"
    and fin: "progress (call_state (calls w' ! (length (calls initial_world) + 11))) = 0"
    and full: "progress (conversation_state w') = 100"
    using batch_progress_zero_until_complete[of steady_api initial_world] by blast
  have ten: "(10::nat) < 11" by simp
  from each ten have
    "current_prompt (call_state (calls w' ! (length (calls initial_world) + 10))) = 10 \<and>
     progress (call_state (calls w' ! (length (calls initial_world) + 10))) = 0"
    by blast
  with run len fin full show ?thesis
    by (auto simp add: initial_world_def)
qed

text \<open>
  C4. The batch makes exactly twelve requests: one for each of the eleven scripted
  entries, in list order, with \<open>current_prompt\<close> set to 0, 1, ..., 10 in turn, and the
  final compilation request. Entry \<open>i\<close> is asked with the history accumulated so far and
  its user/assistant pair of turns is appended to the history (twenty-two turns in all);
  the compilation request is asked with the whole history and appends nothing.
  Afterwards the step is 4, the progress is 100 and \<open>final_response\<close> is the text that
  the compilation request returned.
\<close>

theorem batch_runs_script_in_order:
  "\<exists>w'. process_all_scripted_prompts post w = Inr w' \<and>
        length (calls w') = length (calls w) + 12 \<and>
        take (length (calls w)) (calls w') = calls w \<and>
        length (history (conversation_state w')) =
          length (history (conversation_state w)) + 22 \<and>
        take (length (history (conversation_state w))) (history (conversation_state w')) =
          history (conversation_state w) \<and>
        (\<forall>i < 11.
           current_prompt (call_state (calls w' ! (length (calls w) + i))) = i \<and>
           call_messages (calls w' ! (length (calls w) + i)) =
             take (length (history (conversation_state w)) + 2 * i)
               (history (conversation_state w')) @ [user_turn (SCRIPTED_PROMPTS ! i)] \<and>
           history (conversation_state w') !
               (length (history (conversation_state w)) + 2 * i) =
             user_turn (SCRIPTED_PROMPTS ! i) \<and>
           history (conversation_state w') !
               (length (history (conversation_state w)) + 2 * i + 1) =
             assistant_turn (reply_text (post (length (calls w) + i)
                (model (conversation_state w))
                (call_messages (calls w' ! (length (calls w) + i)))))) \<and>
        call_messages (calls w' ! (length (calls w) + 11)) =
          history (conversation_state w') @ [user_turn COMPILE_PROMPT] \<and>
        step (conversation_state w') = 4 \<and>
        progress (conversation_state w') = 100 \<and>
        final_response (conversation_state w') =
          Some (reply_text (post (length (calls w) + 11) (model (conversation_state w))
             (call_messages (calls w' ! (length (calls w) + 11)))))"
proof -
  obtain w' where run: "process_all_scripted_prompts post w = Inr w'"
    and eff: "batch_effect post w w'"
    using batch_total[of post w] by blast
  from eff have frame:
    "length (calls w') = length (calls w) + 12"
    "take (length (calls w)) (calls w') = calls w"
    "length (history (conversation_state w')) =
       length (history (conversation_state w)) + 22"
    "take (length (history (conversation_state w))) (history (conversation_state w')) =
       history (conversation_state w)"
    "call_messages (calls w' ! (length (calls w) + 11)) =
       history (conversation_state w') @ [user_turn COMPILE_PROMPT]"
    "step (conversation_state w') = 4"
    "progress (conversation_state w') = 100"
    by (simp_all add: batch_effect_def Let_def)
  from eff have final:
    "final_response (conversation_state w') =
       Some (reply_text (post (length (calls w) + 11) (model (conversation_state w))
          (call_messages (calls w' ! (length (calls w) + 11)))))"
    by (simp add: batch_effect_def Let_def)
  from eff have each: "\<forall>i < 11.
           current_prompt (call_state (calls w' ! (length (calls w) + i))) = i \<and>
           call_messages (calls w' ! (length (calls w) + i)) =
             take (length (history (conversation_state w)) + 2 * i)
               (history (conversation_state w')) @ [user_turn (SCRIPTED_PROMPTS ! i)] \<and>
           history (conversation_state w') !
               (length (history (conversation_state w)) + 2 * i) =
             user_turn (SCRIPTED_PROMPTS ! i) \<and>
           history (conversation_state w') !
               (length (history (conversation_state w)) + 2 * i + 1) =
             assistant_turn (reply_text (post (length (calls w) + i)
                (model (conversation_state w))
                (call_messages (calls w' ! (length (calls w) + i)))))"
    by (simp add: batch_effect_def Let_def)
  from run frame final each show ?thesis by blast
qed

theorem batch_runs_script_in_order_witness:
  "\<exists>w'. process_all_scripted_prompts steady_api initial_world = Inr w' \<and>
        length (calls w') = 12 \<and>
        length (history (conversation_state w')) = 22 \<and>
        current_prompt (call_state (calls w' ! 4)) = 4 \<and>
        history (conversation_state w') ! 8 = user_turn (SCRIPTED_PROMPTS ! 4) \<and>
        history (conversation_state w') ! 9 = assistant_turn ''ok'' \<and>
        step (conversation_state w') = 4 \<and>
        progress (conversation_state w') = 100 \<and>
        final_response (conversation_state w') = Some ''ok''"
proof -
  obtain w' where run: "process_all_scripted_prompts steady_api initial_world = Inr w'"
    and frame:
      "length (calls w') = length (calls initial_world) + 12"
      "length (history (conversation_state w')) =
         length (history (conversation_state initial_world)) + 22"
      "step (conversation_state w') = 4"
      "progress (conversation_state w') = 100"
      "final_response (conversation_state w') =
         Some (reply_text (steady_api (length (calls initial_world) + 11)
            (model (conversation_state initial_world))
            (call_messages (calls w' ! (length (calls initial_world) + 11)))))"
    and each: "\<forall>i < 11.
           current_prompt (call_state (calls w' ! (length (calls initial_world) + i))) = i \<and>
           call_messages (calls w' ! (length (calls initial_world) + i)) =
             take (length (history (conversation_state initial_world)) + 2 * i)
               (history (conversation_state w')) @ [user_turn (SCRIPTED_PROMPTS ! i)] \<and>
           history (conversation_state w') !
               (length (history (conversation_state initial_world)) + 2 * i) =
             user_turn (SCRIPTED_PROMPTS ! i) \<and>
           history (conversation_state w') !
               (length (history (conversation_state initial_world)) + 2 * i + 1) =
             assistant_turn (reply_text (steady_api (length (calls initial_world) + i)
                (model (conversation_state initial_world))
                (call_messages (calls w' ! (length (calls initial_world) + i)))))"
    using batch_runs_script_in_order[of steady_api initial_world] by blast
  have four: "(4::nat) < 11" by simp
  from each four have
    "current_prompt (call_state (calls w' ! (length (calls initial_world) + 4))) = 4 \<and>
     history (conversation_state w') !
        (length (history (conversation_state initial_world)) + 2 * 4) =
       user_turn (SCRIPTED_PROMPTS ! 4) \<and>
     history (conversation_state w') !
        (length (history (conversation_state initial_world)) + 2 * 4 + 1) =
       assistant_turn (reply_text (steady_api (length (calls initial_world) + 4)
          (model (conversation_state initial_world))
          (call_messages (calls w' ! (length (calls initial_world) + 4)))))"
    by blast
  with run frame show ?thesis
    by (auto simp add: initial_world_def initial_state_def steady_api_def reply_text_def)
qed

text \<open>
  C5. The chat client wrapper does not raise: when the request fails with an exception
  \<open>e\<close> it returns the text \<open>Error: str(e)\<close> (and the request is logged like any other).
  The batch treats that text as an ordinary answer: whichever of its requests fail, it
  still makes all twelve requests and ends with step 4; the error text of a failed
  scripted request is the content of the assistant turn of its entry, and the error text
  of a failed compilation request is the final document.
\<close>

theorem errors_become_replies:
  "(\<forall>e. post (length (calls w)) mdl
          ((case hist of None \<Rightarrow> [] | Some h \<Rightarrow> h) @ [user_turn prompt]) = Raised e \<longrightarrow>
        fst (get_chatgpt_response post prompt mdl hist w) = ''Error: '' @ e \<and>
        length (calls (snd (get_chatgpt_response post prompt mdl hist w))) =
          length (calls w) + 1) \<and>
   (\<exists>w'. process_all_scripted_prompts post w = Inr w' \<and>
        length (calls w') = length (calls w) + 12 \<and>
        length (history (conversation_state w')) =
          length (history (conversation_state w)) + 22 \<and>
        step (conversation_state w') = 4 \<and>
        \<not> is_processing (conversation_state w') \<and>
        (\<forall>i < 11. \<forall>e.
           post (length (calls w) + i) (model (conversation_state w))
             (call_messages (calls w' ! (length (calls w) + i))) = Raised e \<longrightarrow>
           history (conversation_state w') !
               (length (history (conversation_state w)) + 2 * i + 1) =
             assistant_turn (''Error: '' @ e)) \<and>
        (\<forall>e.
           post (length (calls w) + 11) (model (conversation_state w))
             (call_messages (calls w' ! (length (calls w) + 11))) = Raised e \<longrightarrow>
           final_response (conversation_state w') = Some (''Error: '' @ e)))"
proof
  show "\<forall>e. post (length (calls w)) mdl
          ((case hist of None \<Rightarrow> [] | Some h \<Rightarrow> h) @ [user_turn prompt]) = Raised e \<longrightarrow>
        fst (get_chatgpt_response post prompt mdl hist w) = ''Error: '' @ e \<and>
        length (calls (snd (get_chatgpt_response post prompt mdl hist w))) =
          length (calls w) + 1"
    by (cases hist)
      (simp_all add: get_chatgpt_response_None get_chatgpt_response_Some reply_text_def)
next
  obtain w' where run: "process_all_scripted_prompts post w = Inr w'"
    and eff: "batch_effect post w w'"
    using batch_total[of post w] by blast
  from eff have frame:
    "length (calls w') = length (calls w) + 12"
    "length (history (conversation_state w')) =
       length (history (conversation_state w)) + 22"
    "step (conversation_state w') = 4"
    "\<not> is_processing (conversation_state w')"
    by (simp_all add: batch_effect_def Let_def)
  from eff have each: "\<forall>i < 11. \<forall>e.
           post (length (calls w) + i) (model (conversation_state w))
             (call_messages (calls w' ! (length (calls w) + i))) = Raised e \<longrightarrow>
           history (conversation_state w') !
               (length (history (conversation_state w)) + 2 * i + 1) =
             assistant_turn (''Error: '' @ e)"
    by (simp add: batch_effect_def Let_def reply_text_def)
  from eff have final: "\<forall>e.
           post (length (calls w) + 11) (model (conversation_state w))
             (call_messages (calls w' ! (length (calls w) + 11))) = Raised e \<longrightarrow>
           final_response (conversation_state w') = Some (''Error: '' @ e)"
    by (simp add: batch_effect_def Let_def reply_text_def)
  from run frame each final
  show "\<exists>w'. process_all_scripted_prompts post w = Inr w' \<and>
        length (calls w') = length (calls w) + 12 \<and>
        length (history (conversation_state w')) =
          length (history (conversation_state w)) + 22 \<and>
        step (conversation_state w') = 4 \<and>
        \<not> is_processing (conversation_state w') \<and>
        (\<forall>i < 11. \<forall>e.
           post (length (calls w) + i) (model (conversation_state w))
             (call_messages (calls w' ! (length (calls w) + i))) = Raised e \<longrightarrow>
           history (conversation_state w') !
               (length (history (conversation_state w)) + 2 * i + 1) =
             assistant_turn (''Error: '' @ e)) \<and>
        (\<forall>e.
           post (length (calls w) + 11) (model (conversation_state w))
             (call_messages (calls w' ! (length (calls w) + 11))) = Raised e \<longrightarrow>
           final_response (conversation_state w') = Some (''Error: '' @ e))"
    by blast
qed

text \<open>
  With \<open>flaky_api\<close> the third request fails. On \<open>offer_world\<close>, where two requests have
  been made, the wrapper returns the error text, and the batch records it as the answer
  of entry 0 and still completes.
\<close>

theorem errors_become_replies_witness:
  "fst (get_chatgpt_response flaky_api ''hello'' ''gpt-4'' None offer_world) =
     ''Error: 503 Server Error'' \<and>
   (\<exists>w'. process_all_scripted_prompts flaky_api offer_world = Inr w' \<and>
        length (calls w') = 14 \<and>
        length (history (conversation_state w')) = 26 \<and>
        step (conversation_state w') = 4 \<and>
        history (conversation_state w') ! 5 = assistant_turn ''Error: 503 Server Error'')"
proof -
  note inst = errors_become_replies[of flaky_api offer_world "''gpt-4''" None "''hello''"]
  have a: "fst (get_chatgpt_response flaky_api ''hello'' ''gpt-4'' None offer_world) =
     ''Error: 503 Server Error''"
    using inst by (simp add: flaky_api_def offer_world_def)
  obtain w' where run: "process_all_scripted_prompts flaky_api offer_world = Inr w'"
    and frame:
      "length (calls w') = length (calls offer_world) + 12"
      "length (history (conversation_state w')) =
         length (history (conversation_state offer_world)) + 22"
      "step (conversation_state w') = 4"
    and each: "\<forall>i < 11. \<forall>e.
           flaky_api (length (calls offer_world) + i) (model (conversation_state offer_world))
             (call_messages (calls w' ! (length (calls offer_world) + i))) = Raised e \<longrightarrow>
           history (conversation_state w') !
               (length (history (conversation_state offer_world)) + 2 * i + 1) =
             assistant_turn (''Error: '' @ e)"
    using inst by blast
  have zero: "(0::nat) < 11" by simp
  have fails: "flaky_api (length (calls offer_world) + 0)
      (model (conversation_state offer_world))
      (call_messages (calls w' ! (length (calls offer_world) + 0))) =
      Raised ''503 Server Error''"
    by (simp add: flaky_api_def offer_world_def)
  from each zero fails have
    "history (conversation_state w') !
        (length (history (conversation_state offer_world)) + 2 * 0 + 1) =
       assistant_turn (''Error: '' @ ''503 Server Error'')"
    by blast
  then have b: "history (conversation_state w') ! 5 = assistant_turn ''Error: 503 Server Error''"
    by (simp add: offer_world_sizes)
  from frame have c: "length (calls w') = 14" "length (history (conversation_state w')) = 26"
    by (simp_all add: offer_world_sizes)
  from run a b c frame(3) show ?thesis by blast
qed

section \<open>Properties of the request handlers\<close>

text \<open>
  C6. In every session state whose step is neither 1 (niche expected) nor 2 (offer
  expected), and for every posted form, \<open>/next\<close> answers with the error
  \<open>Invalid step\<close> and changes nothing: every field of the session is as before, no
  request is made and no batch is started.
\<close>

theorem invalid_step_rejected:
  assumes "step (conversation_state w) \<noteq> 1" and "step (conversation_state w) \<noteq> 2"
  shows "next_step post frm w = (Json [(''error'', JStr ''Invalid step'')] 200, w)"
  using assms by (simp add: next_step_def)

theorem invalid_step_rejected_witness:
  "step (conversation_state initial_world) \<noteq> 1 \<and>
   step (conversation_state initial_world) \<noteq> 2 \<and>
   next_step steady_api niche_form initial_world =
     (Json [(''error'', JStr ''Invalid step'')] 200, initial_world)"
proof -
  have a: "step (conversation_state initial_world) \<noteq> 1"
    and b: "step (conversation_state initial_world) \<noteq> 2"
    by (simp_all add: initial_world_def initial_state_def)
  from a b invalid_step_rejected[OF a b, of steady_api niche_form] show ?thesis by simp
qed

text \<open>
  C9. \<open>/next\<close> does not depend on the posted step token: two forms that agree on every
  field other than \<open>step\<close> give the same reply and the same resulting world, from any
  world. (The handler reads the field \<open>input\<close> and the step stored in the session.)
\<close>

theorem posted_step_ignored:
  assumes "\<forall>k. k \<noteq> ''step'' \<longrightarrow> frm k = frm' k"
  shows "next_step post frm w = next_step post frm' w"
proof -
  have ne: "''input'' \<noteq> ''step''" by simp
  have same: "frm ''input'' = frm' ''input''"
    using assms[rule_format, OF ne] .
  show ?thesis unfolding next_step_def same ..
qed

text \<open>
  The offer form and the same form with the step token 4 differ in the token only, and
  are served alike on \<open>offer_world\<close>.
\<close>

theorem posted_step_ignored_witness:
  "offer_form(''step'' := None) = (offer_form(''step'' \<mapsto> ''4''))(''step'' := None) \<and>
   offer_form ''step'' \<noteq> (offer_form(''step'' \<mapsto> ''4'')) ''step'' \<and>
   next_step steady_api offer_form offer_world =
     next_step steady_api (offer_form(''step'' \<mapsto> ''4'')) offer_world"
proof (intro conjI)
  show "offer_form(''step'' := None) = (offer_form(''step'' \<mapsto> ''4''))(''step'' := None)"
    by simp
  show "offer_form ''step'' \<noteq> (offer_form(''step'' \<mapsto> ''4'')) ''step''"
    by (simp add: offer_form_def)
  have a: "\<forall>k. k \<noteq> ''step'' \<longrightarrow> offer_form k = (offer_form(''step'' \<mapsto> ''4'')) k"
    by simp
  show "next_step steady_api offer_form offer_world =
     next_step steady_api (offer_form(''step'' \<mapsto> ''4'')) offer_world"
    by (rule posted_step_ignored[OF a])
qed

text \<open>
  C8. For every supported model identifier \<open>m\<close>, \<open>/start\<close> with \<open>model = m\<close> resets the
  session to its defaults with model \<open>m\<close>, makes one request with the opening prompt as
  the only message (the history is empty at that moment), and returns with step 1 and a
  history of exactly two turns: the opening prompt as user turn and the answer as
  assistant turn.
\<close>

theorem start_session_resets:
  assumes "m \<in> set AVAILABLE_MODELS"
  shows "\<exists>r w'. start_conversation post (frm(''model'' \<mapsto> m)) w = (r, w') \<and>
     calls w' = calls w @
       [\<lparr>call_model = m, call_messages = [user_turn INITIAL_PROMPT],
         call_state =
           \<lparr>history = [], step = 0, model = m, final_response = None,
            current_prompt = 0, progress = 0, status = ''Starting...'',
            is_processing = False\<rparr>\<rparr>] \<and>
     conversation_state w' =
       \<lparr>history =
          [user_turn INITIAL_PROMPT,
           assistant_turn (reply_text (post (length (calls w)) m [user_turn INITIAL_PROMPT]))],
        step = 1, model = m, final_response = None, current_prompt = 0, progress = 0,
        status = ''Starting...'', is_processing = False\<rparr> \<and>
     pending w' = pending w \<and>
     step (conversation_state w') = 1 \<and>
     length (history (conversation_state w')) = 2"
  by (simp add: start_conversation_eq)

theorem start_session_resets_witness:
  "''gpt-4-turbo'' \<in> set AVAILABLE_MODELS \<and>
   (\<exists>r w'. start_conversation steady_api [''model'' \<mapsto> ''gpt-4-turbo''] offer_world = (r, w') \<and>
      conversation_state w' =
        \<lparr>history = [user_turn INITIAL_PROMPT, assistant_turn ''ok''],
         step = 1, model = ''gpt-4-turbo'', final_response = None, current_prompt = 0,
         progress = 0, status = ''Starting...'', is_processing = False\<rparr> \<and>
      length (calls w') = 3 \<and>
      length (history (conversation_state w')) = 2)"
proof -
  have a: "''gpt-4-turbo'' \<in> set AVAILABLE_MODELS"
    by (simp add: AVAILABLE_MODELS_def)
  from start_session_resets[OF a, of steady_api Map.empty offer_world]
  obtain r w' where
    "start_conversation steady_api [''model'' \<mapsto> ''gpt-4-turbo''] offer_world = (r, w')"
    "calls w' = calls offer_world @
       [\<lparr>call_model = ''gpt-4-turbo'', call_messages = [user_turn INITIAL_PROMPT],
         call_state =
           \<lparr>history = [], step = 0, model = ''gpt-4-turbo'', final_response = None,
            current_prompt = 0, progress = 0, status = ''Starting...'',
            is_processing = False\<rparr>\<rparr>]"
    "conversation_state w' =
       \<lparr>history =
          [user_turn INITIAL_PROMPT,
           assistant_turn (reply_text (steady_api (length (calls offer_world)) ''gpt-4-turbo''
              [user_turn INITIAL_PROMPT]))],
        step = 1, model = ''gpt-4-turbo'', final_response = None, current_prompt = 0,
        progress = 0, status = ''Starting...'', is_processing = False\<rparr>"
    by blast
  then have "start_conversation steady_api [''model'' \<mapsto> ''gpt-4-turbo''] offer_world = (r, w') \<and>
      conversation_state w' =
        \<lparr>history = [user_turn INITIAL_PROMPT, assistant_turn ''ok''],
         step = 1, model = ''gpt-4-turbo'', final_response = None, current_prompt = 0,
         progress = 0, status = ''Starting...'', is_processing = False\<rparr> \<and>
      length (calls w') = 3 \<and>
      length (history (conversation_state w')) = 2"
    by (simp add: steady_api_def reply_text_def offer_world_sizes)
  with a show ?thesis by blast
qed

text \<open>
  C2, as the code has it. \<open>/start\<close> stores the posted model string as it is, supported or
  not; the default identifier \<open>gpt-4o\<close> is used only when no \<open>model\<close> field is posted.
  So the stored model is in the supported list exactly when the field is absent or is
  itself in the list.
\<close>

theorem start_session_model_verbatim:
  "model (conversation_state (snd (start_conversation post frm w))) =
     (case frm ''model'' of None \<Rightarrow> ''gpt-4o'' | Some m \<Rightarrow> m) \<and>
   (model (conversation_state (snd (start_conversation post frm w))) \<in> set AVAILABLE_MODELS) =
     (case frm ''model'' of None \<Rightarrow> True | Some m \<Rightarrow> m \<in> set AVAILABLE_MODELS)"
  by (simp add: start_conversation_eq AVAILABLE_MODELS_def split: option.splits)

theorem start_session_model_verbatim_witness:
  "model (conversation_state (snd (start_conversation steady_api Map.empty initial_world))) =
     ''gpt-4o'' \<and>
   model (conversation_state
     (snd (start_conversation steady_api [''model'' \<mapsto> ''gpt-4''] initial_world))) = ''gpt-4''"
  using start_session_model_verbatim[of steady_api Map.empty initial_world]
    start_session_model_verbatim[of steady_api "[''model'' \<mapsto> ''gpt-4'']" initial_world]
  by simp

text \<open>
  C2 as stated fails: a posted model that is not in the supported list is stored as it
  is, and is not replaced by the default.
\<close>

theorem unsupported_model_counterexample:
  "''gpt-5'' \<notin> set AVAILABLE_MODELS \<and>
   model (conversation_state
     (snd (start_conversation steady_api [''model'' \<mapsto> ''gpt-5''] initial_world))) = ''gpt-5'' \<and>
   model (conversation_state
     (snd (start_conversation steady_api [''model'' \<mapsto> ''gpt-5''] initial_world))) \<noteq>
     AVAILABLE_MODELS ! 0"
  by (simp add: start_conversation_eq AVAILABLE_MODELS_def)

text \<open>
  The world \<open>offer_world\<close> is the one reached from the initial world by \<open>/start\<close> with
  model \<open>gpt-4\<close> followed by \<open>/next\<close> with the niche.
\<close>

lemma offer_world_reached:
  "run_all steady_api [StartSession [''model'' \<mapsto> ''gpt-4''], SubmitStep niche_form]
     initial_world = Inr offer_world"
  by (simp add: start_conversation_eq next_step_niche initial_world_def offer_world_def
      niche_form_def steady_api_def reply_text_def strip_def isspace_def)




section \<open>The final document\<close>



text \<open>
  C10. \<open>/download\<close> sends the document if and only if \<open>final_response\<close> is a non-empty
  text; for \<open>None\<close> and for the empty text it answers 404 \<open>Document not ready yet\<close>.
  \<open>/get_final_response\<close> tests the step instead. So when the final compilation request
  returns the empty string, the batch ends with step 4 and the empty document, the
  download reports not ready, and \<open>/get_final_response\<close> succeeds with the empty
  document.
\<close>

theorem download_needs_nonempty_document:
  "((\<exists>text. download w = Attachment ''marketing_strategy.txt'' text) =
      (\<exists>text. final_response (conversation_state w) = Some text \<and> text \<noteq> [])) \<and>
   ((download w = Json [(''error'', JStr ''Document not ready yet'')] 404) =
      (final_response (conversation_state w) = None \<or>
       final_response (conversation_state w) = Some [])) \<and>
   ((\<forall>mdl msgs. post (length (calls w) + 11) mdl msgs = Content []) \<longrightarrow>
      (\<exists>w'. process_all_scripted_prompts post w = Inr w' \<and>
         step (conversation_state w') = 4 \<and>
         final_response (conversation_state w') = Some [] \<and>
         download w' = Json [(''error'', JStr ''Document not ready yet'')] 404 \<and>
         get_final_response w' = Json [(''response'', JStr [])] 200))"
proof (intro conjI impI)
  show "(\<exists>text. download w = Attachment ''marketing_strategy.txt'' text) =
      (\<exists>text. final_response (conversation_state w) = Some text \<and> text \<noteq> [])"
    by (cases "final_response (conversation_state w)") (simp_all add: download_def)
next
  show "(download w = Json [(''error'', JStr ''Document not ready yet'')] 404) =
      (final_response (conversation_state w) = None \<or>
       final_response (conversation_state w) = Some [])"
    by (cases "final_response (conversation_state w)") (simp_all add: download_def)
next
  assume silent: "\<forall>mdl msgs. post (length (calls w) + 11) mdl msgs = Content []"
  obtain w' where run: "process_all_scripted_prompts post w = Inr w'"
    and eff: "batch_effect post w w'"
    using batch_total[of post w] by blast
  from eff silent have st: "step (conversation_state w') = 4"
    and fr: "final_response (conversation_state w') = Some []"
    by (simp_all add: batch_effect_def Let_def reply_text_def)
  from st fr have "download w' = Json [(''error'', JStr ''Document not ready yet'')] 404"
    and "get_final_response w' = Json [(''response'', JStr [])] 200"
    by (simp_all add: download_def get_final_response_def)
  with run st fr
  show "\<exists>w'. process_all_scripted_prompts post w = Inr w' \<and>
         step (conversation_state w') = 4 \<and>
         final_response (conversation_state w') = Some [] \<and>
         download w' = Json [(''error'', JStr ''Document not ready yet'')] 404 \<and>
         get_final_response w' = Json [(''response'', JStr [])] 200"
    by blast
qed

theorem download_needs_nonempty_document_witness:
  "(\<forall>mdl msgs. silent_api (length (calls offer_world) + 11) mdl msgs = Content []) \<and>
   (\<exists>w'. process_all_scripted_prompts silent_api offer_world = Inr w' \<and>
      step (conversation_state w') = 4 \<and>
      download w' = Json [(''error'', JStr ''Document not ready yet'')] 404 \<and>
      get_final_response w' = Json [(''response'', JStr [])] 200)"
proof -
  have a: "\<forall>mdl msgs. silent_api (length (calls offer_world) + 11) mdl msgs = Content []"
    by (simp add: silent_api_def)
  from download_needs_nonempty_document[of offer_world silent_api]
  have "(\<forall>mdl msgs. silent_api (length (calls offer_world) + 11) mdl msgs = Content []) \<longrightarrow>
      (\<exists>w'. process_all_scripted_prompts silent_api offer_world = Inr w' \<and>
         step (conversation_state w') = 4 \<and>
         final_response (conversation_state w') = Some [] \<and>
         download w' = Json [(''error'', JStr ''Document not ready yet'')] 404 \<and>
         get_final_response w' = Json [(''response'', JStr [])] 200)"
    by (elim conjE)
  with a obtain w' where
    "process_all_scripted_prompts silent_api offer_world = Inr w'"
    "step (conversation_state w') = 4"
    "download w' = Json [(''error'', JStr ''Document not ready yet'')] 404"
    "get_final_response w' = Json [(''response'', JStr [])] 200"
    by (elim impE exE conjE) assumption
  with a show ?thesis by (intro conjI exI[of _ w']) assumption+
qed

end
